theory Spec2Isabelle
  imports Complex_Main "HOL-Library.Char_ord"
begin

section \<open>Data model: spans, tokens, AST and diagnostics\<close>

text \<open>
  The engine's types (\<^verbatim>\<open>src/engine/types.ts\<close>) as lexer.ts, parser.ts and validator.ts
  build and read them. A JavaScript string is a list of code units; a \<^typ>\<open>char\<close> stands
  for a code unit below 256. JavaScript numbers that hold positions are \<^typ>\<open>int\<close>
  (\<^typ>\<open>nat\<close> where they index a list); numbers read from a numeric lexeme are modelled
  by their exact decimal value, a \<^typ>\<open>rat\<close> (no rounding to a double).
  The constant \<^verbatim>\<open>kind\<close> tag of each AST node is left out: the record type carries it.
\<close>

record SourceSpan =
  line :: int
  column :: int
  offset :: int
  slength :: int

datatype TokenType =
    String | Number | HexNumber | Percent | Duration | Boolean
  | Keyword | Identifier | JMessage
  | LBrace | RBrace | LBracket | RBracket | Colon | Comma
  | GreaterThanOrEqual | LessThanOrEqual | GreaterThan | LessThan | EqualEqual | NotEqual
  | Comment | Whitespace | Newline
  | EOF | Unknown

record Token =
  ttype :: TokenType
  tvalue :: string
  tspan :: SourceSpan

datatype PropertyValue =
    StringValue string
  | NumberValue rat
  | PercentValue rat
  | DurationValue string
  | BooleanValue bool
  | IdentifierValue string
  | HexValue string
  | ArrayValue "string list"

record PropertyAssignment =
  key :: string
  pvalue :: PropertyValue
  pspan :: SourceSpan





record MessageEntry =
  messageId :: string
  e_properties :: "PropertyAssignment list"
  e_span :: SourceSpan

record MessageCatalog =
  entries :: "MessageEntry list"
  mc_span :: SourceSpan

record ConditionExpression =
  c_field :: string
  c_operator :: string
  c_value :: string
  c_span :: SourceSpan

record WhereClause =
  condition :: ConditionExpression
  w_span :: SourceSpan

datatype FilterAction = Accept | Drop

record FilterRule =
  action :: FilterAction
  r_messageId :: string
  r_where :: "WhereClause option"
  r_span :: SourceSpan

record FilterBlock =
  inbound :: "FilterRule list"
  outbound :: "FilterRule list"
  fb_span :: SourceSpan



text \<open>
  A diagnostic message is a template literal: literal text and interpolated values in
  order. An interpolated string is \<open>Txt\<close>, an interpolated number is \<open>Num\<close> (its decimal
  rendering is not modelled).
\<close>

datatype MsgPart = Txt string | Num rat

datatype Severity = Error | Warning | Info | Hint

record Diagnostic =
  message :: "MsgPart list"
  severity :: Severity
  span :: SourceSpan
  rule :: "string option"
  specRef :: "string option"

section \<open>Validator: property lookup (validator.ts, getPropertyValue)\<close>

definition getPropertyValue :: "PropertyAssignment list \<Rightarrow> string \<Rightarrow> string option" where
  "getPropertyValue properties k =
     (case find (\<lambda>p. key p = k) properties of
        None \<Rightarrow> None
      | Some prop \<Rightarrow>
          (case pvalue prop of
             IdentifierValue v \<Rightarrow> Some v
           | StringValue v \<Rightarrow> Some v
           | _ \<Rightarrow> None))"

text \<open>
  The lookup as the specification words it (section 4.4, \<^verbatim>\<open>get_identifier\<close>): the first
  property whose key matches and whose value is an Identifier or a String.
\<close>

fun isIdentifierOrString :: "PropertyValue \<Rightarrow> bool" where
  "isIdentifierOrString (IdentifierValue v) = True"
| "isIdentifierOrString (StringValue v) = True"
| "isIdentifierOrString _ = False"

fun valueText :: "PropertyValue \<Rightarrow> string option" where
  "valueText (IdentifierValue v) = Some v"
| "valueText (StringValue v) = Some v"
| "valueText _ = None"

definition spec_get_identifier :: "PropertyAssignment list \<Rightarrow> string \<Rightarrow> string option" where
  "spec_get_identifier properties k =
     (case find (\<lambda>p. key p = k \<and> isIdentifierOrString (pvalue p)) properties of
        None \<Rightarrow> None
      | Some prop \<Rightarrow> valueText (pvalue prop))"

definition noSpan :: SourceSpan where
  "noSpan = \<lparr>line = 1, column = 1, offset = 0, slength = 0\<rparr>"

lemma find_append_first:
  "\<forall>q\<in>set pre. \<not> P q \<Longrightarrow> P p \<Longrightarrow> find P (pre @ p # post) = Some p"
  by (induction pre) auto

lemma find_none_iff: "(\<forall>q\<in>set xs. \<not> P q) \<Longrightarrow> find P xs = None"
  by (induction xs) auto

text \<open>
  C4 (amended). The lookup is decided by the first property whose key matches, whatever
  its value: it returns that property's text when the value is an Identifier or a String
  and nothing otherwise (a later property with the same key is never consulted); with no
  matching key it returns nothing.
\<close>

theorem getPropertyValue_first_key_decides:
  "((\<forall>q\<in>set pre. key q \<noteq> k) \<and> key p = k \<longrightarrow>
      getPropertyValue (pre @ p # post) k = valueText (pvalue p))
   \<and> ((\<forall>q\<in>set properties. key q \<noteq> k) \<longrightarrow> getPropertyValue properties k = None)"
proof (intro conjI impI)
  assume h: "(\<forall>q\<in>set pre. key q \<noteq> k) \<and> key p = k"
  then have "find (\<lambda>p. key p = k) (pre @ p # post) = Some p"
    by (intro find_append_first) auto
  then show "getPropertyValue (pre @ p # post) k = valueText (pvalue p)"
    by (cases "pvalue p") (simp_all add: getPropertyValue_def)
next
  assume "\<forall>q\<in>set properties. key q \<noteq> k"
  then show "getPropertyValue properties k = None"
    by (simp add: getPropertyValue_def find_none_iff)
qed

theorem getPropertyValue_first_key_decides_witness:
  "getPropertyValue
     ([\<lparr>key = ''role'', pvalue = IdentifierValue ''Relay'', pspan = noSpan\<rparr>]
       @ \<lparr>key = ''link'', pvalue = NumberValue 16, pspan = noSpan\<rparr>
       # [\<lparr>key = ''link'', pvalue = IdentifierValue ''Link16'', pspan = noSpan\<rparr>]) ''link''
     = valueText (NumberValue 16)
   \<and> getPropertyValue [\<lparr>key = ''role'', pvalue = IdentifierValue ''Relay'', pspan = noSpan\<rparr>] ''link''
     = None"
  using getPropertyValue_first_key_decides
          [of "[\<lparr>key = ''role'', pvalue = IdentifierValue ''Relay'', pspan = noSpan\<rparr>]" "''link''"
              "\<lparr>key = ''link'', pvalue = NumberValue 16, pspan = noSpan\<rparr>"
              "[\<lparr>key = ''link'', pvalue = IdentifierValue ''Link16'', pspan = noSpan\<rparr>]"
              "[\<lparr>key = ''role'', pvalue = IdentifierValue ''Relay'', pspan = noSpan\<rparr>]"]
  by simp

theorem getPropertyValue_skips_nothing_counterexample:
  "getPropertyValue
     [\<lparr>key = ''link'', pvalue = NumberValue 16, pspan = noSpan\<rparr>,
      \<lparr>key = ''link'', pvalue = IdentifierValue ''Link16'', pspan = noSpan\<rparr>] ''link'' = None
   \<and> spec_get_identifier
     [\<lparr>key = ''link'', pvalue = NumberValue 16, pspan = noSpan\<rparr>,
      \<lparr>key = ''link'', pvalue = IdentifierValue ''Link16'', pspan = noSpan\<rparr>] ''link'' = Some ''Link16''"
  by (simp add: getPropertyValue_def spec_get_identifier_def)

section \<open>Specification database (src/specs/link16)\<close>














section \<open>Validator rules (validator.ts)\<close>




subsection \<open>Link 16: ncs-required (the first block of validateLink16Network)\<close>


subsection \<open>validateTsdfBudget\<close>




subsection \<open>validateNpgSubscriberCoverage\<close>





subsection \<open>validatePpliRequired\<close>



subsection \<open>validateMessageNpgMatch\<close>



subsection \<open>validateStackingConsistency\<close>





subsection \<open>validateNpgReferences\<close>





subsection \<open>validateJMessageReferences\<close>



subsection \<open>validateParticipantReferences\<close>




subsection \<open>validateTrackNumberUniqueness and validateNetNumberUniqueness\<close>





subsection \<open>validateClassification\<close>


subsection \<open>validateLink16TerminalProperties and validateLink16NetProperties\<close>












subsection \<open>validateLink16Network\<close>


subsection \<open>Link 22: the two loops at the head of validateLink22Network\<close>



subsection \<open>validateLink22SubnetworkProperties\<close>











subsection \<open>validateLink22UnitIdUniqueness\<close>






subsection \<open>validateLink22Network, validateNetwork and validate\<close>







section \<open>The accumulator is only ever extended\<close>




































































section \<open>The order of the validator's output\<close>




















section \<open>Which rule codes each rule function emits\<close>

definition rulesIn :: "string set \<Rightarrow> Diagnostic list \<Rightarrow> bool" where
  "rulesIn R ds = list_all (\<lambda>d. case rule d of Some r \<Rightarrow> r \<in> R | None \<Rightarrow> False) ds"




lemma rulesIn_mono: "rulesIn R ds \<Longrightarrow> R \<subseteq> R' \<Longrightarrow> rulesIn R' ds"
  by (auto simp: rulesIn_def list_all_iff split: option.splits)
















































































section \<open>total-tsdf-budget\<close>














section \<open>valid-classification\<close>











section \<open>unit-id-uniqueness and letter case\<close>
























end
